theory Spec2Isabelle
  imports Main
begin

section \<open>bigip\_virtual\_server: the module's data\<close>

text \<open>
  The module is Python 2. A remote call either returns or raises; the code tells
  \<open>bigsuds.OperationFailed\<close> from every other \<open>Exception\<close>, and reads the message
  of the former with \<open>str(e)\<close>.
\<close>

datatype exn = OperationFailed string | OtherException string

fun str :: "exn \<Rightarrow> string" where
  "str (OperationFailed msg) = msg"
| "str (OtherException msg) = msg"

text \<open>
  Every iControl method the module calls, with the arguments that vary. A profile is sent
  and read by its \<open>profile_name\<close>; the context is always \<open>PROFILE_CONTEXT_TYPE_ALL\<close>.
  \<open>Create\<close> carries name, address, port and default pool; wildmask, protocol, resource
  type and the initial profile \<open>tcp\<close> are constants of \<open>vs_create\<close>.
\<close>

datatype call =
    Get_object_status string
  | Create string "string option" "int option" "string option"
  | Delete_virtual_server string
  | Get_profile string
  | Remove_profile string "string list"
  | Add_profile string "string list"
  | Get_source_address_translation_type string
  | Set_source_address_translation_none string
  | Set_source_address_translation_automap string
  | Get_default_pool_name string
  | Set_default_pool_name string string
  | Get_destination_v2 string
  | Set_destination_v2 string string int
  | Get_description string
  | Set_description string string
  | Start_transaction
  | Submit_transaction

text \<open>The calls that only read the appliance.\<close>

fun mutating :: "call \<Rightarrow> bool" where
  "mutating (Get_object_status _) = False"
| "mutating (Get_profile _) = False"
| "mutating (Get_source_address_translation_type _) = False"
| "mutating (Get_default_pool_name _) = False"
| "mutating (Get_destination_v2 _) = False"
| "mutating (Get_description _) = False"
| "mutating _ = True"

text \<open>
  The remote client \<open>api\<close> is an external collaborator: any behaviour over any state
  \<open>'r\<close> of the appliance. Each method returns its value or raises, and leaves a new
  appliance state.
\<close>

record 'r api =
  api_get_object_status :: "string \<Rightarrow> 'r \<Rightarrow> (exn + unit) \<times> 'r"
  api_create :: "string \<Rightarrow> string option \<Rightarrow> int option \<Rightarrow> string option \<Rightarrow> 'r \<Rightarrow> (exn + unit) \<times> 'r"
  api_delete_virtual_server :: "string \<Rightarrow> 'r \<Rightarrow> (exn + unit) \<times> 'r"
  api_get_profile :: "string \<Rightarrow> 'r \<Rightarrow> (exn + string list) \<times> 'r"
  api_remove_profile :: "string \<Rightarrow> string list \<Rightarrow> 'r \<Rightarrow> (exn + unit) \<times> 'r"
  api_add_profile :: "string \<Rightarrow> string list \<Rightarrow> 'r \<Rightarrow> (exn + unit) \<times> 'r"
  api_get_source_address_translation_type :: "string \<Rightarrow> 'r \<Rightarrow> (exn + string) \<times> 'r"
  api_set_source_address_translation_none :: "string \<Rightarrow> 'r \<Rightarrow> (exn + unit) \<times> 'r"
  api_set_source_address_translation_automap :: "string \<Rightarrow> 'r \<Rightarrow> (exn + unit) \<times> 'r"
  api_get_default_pool_name :: "string \<Rightarrow> 'r \<Rightarrow> (exn + string) \<times> 'r"
  api_set_default_pool_name :: "string \<Rightarrow> string \<Rightarrow> 'r \<Rightarrow> (exn + unit) \<times> 'r"
  api_get_destination_v2 :: "string \<Rightarrow> 'r \<Rightarrow> (exn + string \<times> int) \<times> 'r"
  api_set_destination_v2 :: "string \<Rightarrow> string \<Rightarrow> int \<Rightarrow> 'r \<Rightarrow> (exn + unit) \<times> 'r"
  api_get_description :: "string \<Rightarrow> 'r \<Rightarrow> (exn + string) \<times> 'r"
  api_set_description :: "string \<Rightarrow> string \<Rightarrow> 'r \<Rightarrow> (exn + unit) \<times> 'r"
  api_start_transaction :: "'r \<Rightarrow> (exn + unit) \<times> 'r"
  api_submit_transaction :: "'r \<Rightarrow> (exn + unit) \<times> 'r"

text \<open>
  What one invocation sees and leaves behind: the appliance, the remote calls issued so
  far in order, and what \<open>vs_create\<close> printed.
\<close>

record 'r world =
  remote :: 'r
  calls :: "call list"
  printed :: "exn list"

type_synonym ('r, 'a) action = "'r world \<Rightarrow> (exn + 'a) \<times> 'r world"

definition invoke :: "call \<Rightarrow> ('r \<Rightarrow> (exn + 'a) \<times> 'r) \<Rightarrow> ('r, 'a) action" where
  "invoke c f w =
     (case f (remote w) of (res, r') \<Rightarrow> (res, w\<lparr>remote := r', calls := calls w @ [c]\<rparr>))"

text \<open>Statement after statement: an exception of the first skips the rest.\<close>

definition then_do :: "('r, 'a) action \<Rightarrow> ('a \<Rightarrow> ('r, 'b) action) \<Rightarrow> ('r, 'b) action" where
  "then_do act rest w =
     (case act w of (Inl e, w') \<Rightarrow> (Inl e, w') | (Inr x, w') \<Rightarrow> rest x w')"

definition ret :: "'a \<Rightarrow> ('r, 'a) action" where
  "ret x w = (Inr x, w)"

subsection \<open>Python values\<close>

text \<open>\<open>sub in s\<close> on strings.\<close>

fun startswith :: "string \<Rightarrow> string \<Rightarrow> bool" where
  "startswith s [] = True"
| "startswith [] (p # ps) = False"
| "startswith (c # cs) (p # ps) = (c = p \<and> startswith cs ps)"

fun py_in :: "string \<Rightarrow> string \<Rightarrow> bool" where
  "py_in sub [] = (sub = [])"
| "py_in sub (c # cs) = (startswith (c # cs) sub \<or> py_in sub cs)"

text \<open>
  Python 2 orders \<open>None\<close> below every integer, so \<open>a > b\<close> is defined on optional
  integers; \<open>not x\<close> is true of \<open>None\<close>, of the empty string and of zero.
\<close>

fun py2_gt :: "int option \<Rightarrow> int option \<Rightarrow> bool" where
  "py2_gt None _ = False"
| "py2_gt (Some a) None = True"
| "py2_gt (Some a) (Some b) = (a > b)"

fun not_str :: "string option \<Rightarrow> bool" where
  "not_str None = True"
| "not_str (Some s) = (s = [])"

fun not_int :: "int option \<Rightarrow> bool" where
  "not_int None = True"
| "not_int (Some i) = (i = 0)"

subsection \<open>Module parameters and result\<close>

datatype state = Present | Absent | Enabled | Disabled

text \<open>
  \<open>module.params\<close> after the argument spec: \<open>state\<close> is one of four choices
  (default \<open>present\<close>), \<open>name\<close> is required, \<open>port\<close> is an integer, the rest are
  strings or a list of strings, and each optional one may be \<open>None\<close>.
\<close>

record params =
  param_state :: state
  param_partition :: string
  param_name :: string
  param_destination :: "string option"
  param_port :: "int option"
  param_all_profiles :: "string list option"
  param_pool :: "string option"
  param_description :: "string option"
  param_snat :: "string option"
  check_mode :: bool

record result =
  changed :: bool
  deleted :: "string option"

text \<open>\<open>module.exit_json(**result)\<close> or \<open>module.fail_json(msg=...)\<close>; both end the process.\<close>

datatype outcome = Exit_json result | Fail_json string

text \<open>
  Modelled from the spec: \<open>fq_name\<close> and \<open>fq_list_names\<close> are imported from
  \<open>ansible.module_utils.f5\<close>, which is not under src/. The spec calls the partition a
  "namespace prefix applied to name and to pool/profile references" and the name
  "globally qualified by a partition/namespace prefix": a name that is not yet qualified
  (does not start with a slash) becomes \<open>/partition/name\<close>, and \<open>None\<close> stays \<open>None\<close>.
\<close>

definition fq_name :: "string \<Rightarrow> string \<Rightarrow> string" where
  "fq_name part name =
     (if \<not> startswith name ''/'' then ''/'' @ part @ ''/'' @ name else name)"

definition fq_name_opt :: "string \<Rightarrow> string option \<Rightarrow> string option" where
  "fq_name_opt part name = map_option (fq_name part) name"

definition fq_list_names :: "string \<Rightarrow> string list option \<Rightarrow> string list option" where
  "fq_list_names part list_names = map_option (map (fq_name part)) list_names"

section \<open>The module's functions\<close>

definition vs_exists :: "'r api \<Rightarrow> string \<Rightarrow> ('r, bool) action" where
  "vs_exists api vs w =
     (case invoke (Get_object_status vs) (api_get_object_status api vs) w of
        (Inr _, w') \<Rightarrow> (Inr True, w')
      | (Inl (OperationFailed msg), w') \<Rightarrow>
          if py_in ''was not found'' msg then (Inr False, w')
          else (Inl (OperationFailed msg), w')
      | (Inl e, w') \<Rightarrow> (Inl e, w'))"

text \<open>
  \<open>vs_create\<close> catches every \<open>Exception\<close> of the create call, prints its arguments and
  returns normally.
\<close>

definition vs_create ::
  "'r api \<Rightarrow> string \<Rightarrow> string option \<Rightarrow> int option \<Rightarrow> string option \<Rightarrow> ('r, unit) action" where
  "vs_create api name destination port pool w =
     (case invoke (Create name destination port pool) (api_create api name destination port pool) w of
        (Inr _, w') \<Rightarrow> (Inr (), w')
      | (Inl e, w') \<Rightarrow> (Inr (), w'\<lparr>printed := printed w' @ [e]\<rparr>))"

definition vs_remove :: "'r api \<Rightarrow> string \<Rightarrow> ('r, unit) action" where
  "vs_remove api name = invoke (Delete_virtual_server name) (api_delete_virtual_server api name)"

definition get_profiles :: "'r api \<Rightarrow> string \<Rightarrow> ('r, string list) action" where
  "get_profiles api name = invoke (Get_profile name) (api_get_profile api name)"

definition to_add_profiles :: "string list \<Rightarrow> string list \<Rightarrow> string list" where
  "to_add_profiles profiles_list current_profiles =
     filter (\<lambda>x. x \<notin> set current_profiles) profiles_list"

definition to_del_profiles :: "string list \<Rightarrow> string list \<Rightarrow> string list" where
  "to_del_profiles profiles_list current_profiles =
     filter (\<lambda>x. x \<notin> set profiles_list \<and> x \<noteq> ''/Common/tcp'') current_profiles"

definition set_profiles :: "'r api \<Rightarrow> string \<Rightarrow> string list option \<Rightarrow> ('r, bool) action" where
  "set_profiles api name profiles_list =
     (case profiles_list of
        None \<Rightarrow> ret False
      | Some ps \<Rightarrow>
          then_do (get_profiles api name) (\<lambda>current_profiles.
            let to_add = to_add_profiles ps current_profiles;
                to_del = to_del_profiles ps current_profiles
            in then_do (if length to_del > 0
                        then then_do (invoke (Remove_profile name to_del) (api_remove_profile api name to_del))
                                     (\<lambda>_. ret True)
                        else ret False) (\<lambda>changed1.
               then_do (if length to_add > 0
                        then then_do (invoke (Add_profile name to_add) (api_add_profile api name to_add))
                                     (\<lambda>_. ret True)
                        else ret changed1) (\<lambda>changed2.
               ret changed2))))"

definition get_snat_type :: "'r api \<Rightarrow> string \<Rightarrow> ('r, string) action" where
  "get_snat_type api name =
     invoke (Get_source_address_translation_type name) (api_get_source_address_translation_type api name)"

definition set_snat :: "'r api \<Rightarrow> string \<Rightarrow> string option \<Rightarrow> ('r, bool) action" where
  "set_snat api name snat =
     then_do (get_snat_type api name) (\<lambda>current_state.
       case snat of
         None \<Rightarrow> ret False
       | Some s \<Rightarrow>
           then_do (if s = ''None'' \<and> current_state \<noteq> ''SRC_TRANS_NONE''
                    then then_do (invoke (Set_source_address_translation_none name)
                                         (api_set_source_address_translation_none api name))
                                 (\<lambda>_. ret True)
                    else ret False) (\<lambda>update1.
           then_do (if s = ''Automap'' \<and> current_state \<noteq> ''SRC_TRANS_AUTOMAP''
                    then then_do (invoke (Set_source_address_translation_automap name)
                                         (api_set_source_address_translation_automap api name))
                                 (\<lambda>_. ret True)
                    else ret update1) (\<lambda>update2.
           ret update2)))"

definition get_pool :: "'r api \<Rightarrow> string \<Rightarrow> ('r, string) action" where
  "get_pool api name = invoke (Get_default_pool_name name) (api_get_default_pool_name api name)"

definition set_pool :: "'r api \<Rightarrow> string \<Rightarrow> string option \<Rightarrow> ('r, bool) action" where
  "set_pool api name pool =
     then_do (get_pool api name) (\<lambda>current_pool.
       case pool of
         Some p \<Rightarrow>
           if p \<noteq> current_pool
           then then_do (invoke (Set_default_pool_name name p) (api_set_default_pool_name api name p))
                        (\<lambda>_. ret True)
           else ret False
       | None \<Rightarrow> ret False)"

definition get_destination :: "'r api \<Rightarrow> string \<Rightarrow> ('r, string \<times> int) action" where
  "get_destination api name = invoke (Get_destination_v2 name) (api_get_destination_v2 api name)"

definition set_destination ::
  "'r api \<Rightarrow> string \<Rightarrow> string option \<Rightarrow> int option \<Rightarrow> ('r, bool) action" where
  "set_destination api name destination port =
     then_do (get_destination api name) (\<lambda>current_destination.
       case (destination, port) of
         (Some d, Some p) \<Rightarrow>
           if d \<noteq> fst current_destination \<or> p \<noteq> snd current_destination
           then then_do (invoke (Set_destination_v2 name d p) (api_set_destination_v2 api name d p))
                        (\<lambda>_. ret True)
           else ret False
       | _ \<Rightarrow> ret False)"

definition get_description :: "'r api \<Rightarrow> string \<Rightarrow> ('r, string) action" where
  "get_description api name = invoke (Get_description name) (api_get_description api name)"

definition set_description :: "'r api \<Rightarrow> string \<Rightarrow> string option \<Rightarrow> ('r, bool) action" where
  "set_description api name description =
     then_do (get_description api name) (\<lambda>current_description.
       case description of
         Some d \<Rightarrow>
           if current_description \<noteq> d
           then then_do (invoke (Set_description name d) (api_set_description api name d))
                        (\<lambda>_. ret True)
           else ret False
       | None \<Rightarrow> ret False)"

subsection \<open>main\<close>

text \<open>The guard of line 303, \<open>1 > port > 65535\<close>: Python chains it as a conjunction.\<close>

definition port_guard :: "int option \<Rightarrow> bool" where
  "port_guard port = (py2_gt (Some 1) port \<and> py2_gt port (Some 65535))"

text \<open>\<open>result['changed'] |= c\<close>\<close>

definition or_changed :: "result \<Rightarrow> bool \<Rightarrow> result" where
  "or_changed res c = res\<lparr>changed := changed res \<or> c\<rparr>"

text \<open>\<open>state == 'absent'\<close>, lines 310 to 325.\<close>

definition main_absent :: "'r api \<Rightarrow> bool \<Rightarrow> string \<Rightarrow> ('r, outcome) action" where
  "main_absent api chk name =
     (if \<not> chk then
        then_do (vs_exists api name) (\<lambda>ex.
          if ex then
            (\<lambda>w. case vs_remove api name w of
                    (Inr _, w') \<Rightarrow> (Inr (Exit_json \<lparr>changed = True, deleted = Some name\<rparr>), w')
                  | (Inl (OperationFailed msg), w') \<Rightarrow>
                      if py_in ''was not found'' msg
                      then (Inr (Exit_json \<lparr>changed = False, deleted = None\<rparr>), w')
                      else (Inl (OperationFailed msg), w')
                  | (Inl e, w') \<Rightarrow> (Inl e, w'))
          else ret (Exit_json \<lparr>changed = False, deleted = None\<rparr>))
      else ret (Exit_json \<lparr>changed = True, deleted = None\<rparr>))"

text \<open>\<open>if update:\<close>, lines 355 to 368; \<open>res\<close> is \<open>result\<close> on entry.\<close>

definition main_update ::
  "'r api \<Rightarrow> bool \<Rightarrow> string \<Rightarrow> string \<Rightarrow> string option \<Rightarrow> int option \<Rightarrow> string list option \<Rightarrow>
   string option \<Rightarrow> string option \<Rightarrow> string option \<Rightarrow> result \<Rightarrow> ('r, outcome) action" where
  "main_update api chk part name destination port all_profiles pool description snat res =
     (if \<not> chk then
        then_do (invoke Start_transaction (api_start_transaction api)) (\<lambda>_.
        then_do (set_destination api name (fq_name_opt part destination) port) (\<lambda>c1.
        then_do (set_pool api name pool) (\<lambda>c2.
        then_do (set_description api name description) (\<lambda>c3.
        then_do (set_snat api name snat) (\<lambda>c4.
        then_do (set_profiles api name all_profiles) (\<lambda>c5.
        then_do (invoke Submit_transaction (api_submit_transaction api)) (\<lambda>_.
        ret (Exit_json
          (or_changed (or_changed (or_changed (or_changed (or_changed res c1) c2) c3) c4) c5)))))))))
      else ret (Exit_json \<lparr>changed = True, deleted = None\<rparr>))"

text \<open>\<open>state == 'present'\<close>, lines 327 to 368.\<close>

definition main_present ::
  "'r api \<Rightarrow> bool \<Rightarrow> string \<Rightarrow> string \<Rightarrow> string option \<Rightarrow> int option \<Rightarrow> string list option \<Rightarrow>
   string option \<Rightarrow> string option \<Rightarrow> string option \<Rightarrow> ('r, outcome) action" where
  "main_present api chk part name destination port all_profiles pool description snat =
     then_do (vs_exists api name) (\<lambda>ex.
       if \<not> ex then
         if not_str destination \<or> not_int port
         then ret (Fail_json ''both destination and port must be supplied to create a VS'')
         else if \<not> chk then
           (\<lambda>w. case vs_create api name destination port pool w of
                   (Inl (OperationFailed msg), w') \<Rightarrow>
                     if py_in ''already exists'' msg
                     then main_update api chk part name destination port all_profiles pool
                            description snat \<lparr>changed = False, deleted = None\<rparr> w'
                     else (Inl (OperationFailed msg), w')
                 | (Inl e, w') \<Rightarrow> (Inl e, w')
                 | (Inr _, w') \<Rightarrow>
                     then_do (set_profiles api name all_profiles) (\<lambda>_.
                     then_do (set_snat api name snat) (\<lambda>_.
                     then_do (set_description api name description) (\<lambda>_.
                     ret (Exit_json \<lparr>changed = True, deleted = None\<rparr>)))) w')
         else ret (Exit_json \<lparr>changed = True, deleted = None\<rparr>)
       else main_update api chk part name destination port all_profiles pool
              description snat \<lparr>changed = False, deleted = None\<rparr>)"

text \<open>
  \<open>state in ('disabled', 'enabled')\<close>, lines 370 to 378. \<open>name\<close> is a required string
  and \<open>fq_name\<close> of a string is a string, so the test \<open>name is None\<close> is false.
\<close>

definition main_toggle :: "bool \<Rightarrow> ('r, outcome) action" where
  "main_toggle chk =
     (if \<not> chk then ret (Exit_json \<lparr>changed = False, deleted = None\<rparr>)
      else ret (Exit_json \<lparr>changed = True, deleted = None\<rparr>))"

text \<open>
  \<open>fail_json\<close> leaves by \<open>SystemExit\<close>, which \<open>except Exception\<close> does not catch; every
  exception of a remote call ends in the handler of line 380.
\<close>

definition main :: "'r api \<Rightarrow> params \<Rightarrow> 'r world \<Rightarrow> outcome \<times> 'r world" where
  "main api m w =
     (let chk = check_mode m;
          part = param_partition m;
          name = fq_name part (param_name m);
          destination = param_destination m;
          port = param_port m;
          all_profiles = fq_list_names part (param_all_profiles m);
          pool = fq_name_opt part (param_pool m);
          description = param_description m;
          snat = param_snat m
      in if port_guard port then (Fail_json ''valid ports must be in range 1 - 65535'', w)
         else
           (case (case param_state m of
                    Absent \<Rightarrow> main_absent api chk name
                  | Present \<Rightarrow> main_present api chk part name destination port all_profiles
                                 pool description snat
                  | Enabled \<Rightarrow> main_toggle chk
                  | Disabled \<Rightarrow> main_toggle chk) w of
              (Inl e, w') \<Rightarrow> (Fail_json (''received exception: '' @ str e), w')
            | (Inr out, w') \<Rightarrow> (out, w')))"

section \<open>A reference appliance\<close>

text \<open>
  Modelled from the spec: the appliance behind the remote client is an external
  collaborator, no code of it is under src/. The spec gives it an "existence-check,
  create, delete, get/set-attribute operations", a "not found"-class and an "already
  exists"-class error, a create that "only sets identity, destination, and pool", the
  base profile that "is always attached", and concurrent actors that "can create or delete
  the same named resource between the two calls". This appliance stores what a setter
  sends and reports it back; the address a server is created with is reported qualified by
  the folder in which the appliance resolves names, as the base profile sent as \<open>tcp\<close>
  is reported as \<open>/Common/tcp\<close>; a rival, when there is one, acts right after the next
  existence check. It serves as the concrete remote of the examples and of the
  idempotence result; every other theorem holds for an arbitrary remote client.
\<close>

record vserver =
  vs_address :: string
  vs_port :: int
  vs_pool :: string
  vs_description :: string
  vs_snat :: string
  vs_profiles :: "string list"

datatype rival = Rival_creates string vserver | Rival_deletes string

record appliance =
  servers :: "string \<Rightarrow> vserver option"
  rival :: "rival option"
  folder :: string

definition not_found :: "string \<Rightarrow> exn" where
  "not_found name = OperationFailed (''The requested virtual server ('' @ name @ '') was not found.'')"

definition already_exists :: "string \<Rightarrow> exn" where
  "already_exists name = OperationFailed (''The requested virtual server ('' @ name @ '') already exists.'')"

definition rival_acts :: "appliance \<Rightarrow> appliance" where
  "rival_acts s =
     (case rival s of
        None \<Rightarrow> s
      | Some (Rival_creates n v) \<Rightarrow> s\<lparr>servers := (servers s)(n := Some v), rival := None\<rparr>
      | Some (Rival_deletes n) \<Rightarrow> s\<lparr>servers := (servers s)(n := None), rival := None\<rparr>)"

definition mock_get :: "(vserver \<Rightarrow> 'a) \<Rightarrow> string \<Rightarrow> appliance \<Rightarrow> (exn + 'a) \<times> appliance" where
  "mock_get f name s =
     (case servers s name of
        None \<Rightarrow> (Inl (not_found name), s)
      | Some v \<Rightarrow> (Inr (f v), s))"

definition mock_set :: "(vserver \<Rightarrow> vserver) \<Rightarrow> string \<Rightarrow> appliance \<Rightarrow> (exn + unit) \<times> appliance" where
  "mock_set f name s =
     (case servers s name of
        None \<Rightarrow> (Inl (not_found name), s)
      | Some v \<Rightarrow> (Inr (), s\<lparr>servers := (servers s)(name := Some (f v))\<rparr>))"

definition mock_status :: "string \<Rightarrow> appliance \<Rightarrow> (exn + unit) \<times> appliance" where
  "mock_status name s =
     (case servers s name of
        None \<Rightarrow> (Inl (not_found name), rival_acts s)
      | Some v \<Rightarrow> (Inr (), rival_acts s))"

definition mock_create ::
  "string \<Rightarrow> string option \<Rightarrow> int option \<Rightarrow> string option \<Rightarrow> appliance \<Rightarrow> (exn + unit) \<times> appliance" where
  "mock_create name address port pool s =
     (case servers s name of
        Some v \<Rightarrow> (Inl (already_exists name), s)
      | None \<Rightarrow>
          (case (address, port) of
             (Some a, Some p) \<Rightarrow>
               (Inr (), s\<lparr>servers := (servers s)(name := Some
                  \<lparr>vs_address = fq_name (folder s) a, vs_port = p,
                   vs_pool = (case pool of None \<Rightarrow> [] | Some q \<Rightarrow> q),
                   vs_description = [], vs_snat = ''SRC_TRANS_NONE'',
                   vs_profiles = [''/Common/tcp'']\<rparr>)\<rparr>)
           | _ \<Rightarrow> (Inl (OtherException ''invalid definition''), s)))"

definition mock_delete :: "string \<Rightarrow> appliance \<Rightarrow> (exn + unit) \<times> appliance" where
  "mock_delete name s =
     (case servers s name of
        None \<Rightarrow> (Inl (not_found name), s)
      | Some v \<Rightarrow> (Inr (), s\<lparr>servers := (servers s)(name := None)\<rparr>))"

definition mock_api :: "appliance api" where
  "mock_api =
     \<lparr>api_get_object_status = mock_status,
      api_create = mock_create,
      api_delete_virtual_server = mock_delete,
      api_get_profile = mock_get vs_profiles,
      api_remove_profile = (\<lambda>name ps. mock_set (\<lambda>v. v\<lparr>vs_profiles := filter (\<lambda>x. x \<notin> set ps) (vs_profiles v)\<rparr>) name),
      api_add_profile = (\<lambda>name ps. mock_set (\<lambda>v. v\<lparr>vs_profiles := vs_profiles v @ ps\<rparr>) name),
      api_get_source_address_translation_type = mock_get vs_snat,
      api_set_source_address_translation_none = mock_set (\<lambda>v. v\<lparr>vs_snat := ''SRC_TRANS_NONE''\<rparr>),
      api_set_source_address_translation_automap = mock_set (\<lambda>v. v\<lparr>vs_snat := ''SRC_TRANS_AUTOMAP''\<rparr>),
      api_get_default_pool_name = mock_get vs_pool,
      api_set_default_pool_name = (\<lambda>name p. mock_set (\<lambda>v. v\<lparr>vs_pool := p\<rparr>) name),
      api_get_destination_v2 = mock_get (\<lambda>v. (vs_address v, vs_port v)),
      api_set_destination_v2 = (\<lambda>name a p. mock_set (\<lambda>v. v\<lparr>vs_address := a, vs_port := p\<rparr>) name),
      api_get_description = mock_get vs_description,
      api_set_description = (\<lambda>name d. mock_set (\<lambda>v. v\<lparr>vs_description := d\<rparr>) name),
      api_start_transaction = (\<lambda>s. (Inr (), s)),
      api_submit_transaction = (\<lambda>s. (Inr (), s))\<rparr>"

text \<open>The inputs of the examples.\<close>

definition no_server :: "string \<Rightarrow> vserver option" where
  "no_server = (\<lambda>n. None)"

definition empty_world :: "appliance world" where
  "empty_world =
     \<lparr>remote = \<lparr>servers = no_server, rival = None, folder = ''Common''\<rparr>,
      calls = [], printed = []\<rparr>"

definition web_server :: vserver where
  "web_server =
     \<lparr>vs_address = ''/Common/10.0.0.1'', vs_port = 443, vs_pool = ''/Common/web'',
      vs_description = ''old text'', vs_snat = ''SRC_TRANS_NONE'',
      vs_profiles = [''/Common/tcp'', ''/Common/http'']\<rparr>"

definition one_world :: "appliance world" where
  "one_world =
     \<lparr>remote = \<lparr>servers = no_server(''/Common/vs1'' := Some web_server), rival = None,
                 folder = ''Common''\<rparr>,
      calls = [], printed = []\<rparr>"

definition rival_world :: "rival \<Rightarrow> appliance world \<Rightarrow> appliance world" where
  "rival_world rv w = w\<lparr>remote := (remote w)\<lparr>rival := Some rv\<rparr>\<rparr>"

definition vs1 :: params where
  "vs1 =
     \<lparr>param_state = Present, param_partition = ''Common'', param_name = ''vs1'',
      param_destination = Some ''10.0.0.1'', param_port = Some 443,
      param_all_profiles = None, param_pool = None, param_description = None,
      param_snat = None, check_mode = False\<rparr>"

definition vs1_update :: params where
  "vs1_update =
     vs1\<lparr>param_port := Some 8080, param_all_profiles := Some [''http'', ''clientssl''],
          param_description := Some ''new text'', param_snat := Some ''Automap''\<rparr>"

definition vs1_full :: params where
  "vs1_full =
     vs1\<lparr>param_all_profiles := Some [''http'', ''clientssl''], param_pool := Some ''web'',
          param_description := Some ''new text'', param_snat := Some ''Automap''\<rparr>"

subsection \<open>What a specification asks of a server of the reference appliance\<close>
















section \<open>Proof tools\<close>

lemmas module_defs =
  main_def main_present_def main_absent_def main_update_def main_toggle_def
  vs_exists_def vs_create_def vs_remove_def
  set_profiles_def set_snat_def set_pool_def set_destination_def set_description_def
  get_profiles_def get_snat_type_def get_pool_def get_destination_def get_description_def
  invoke_def then_do_def ret_def port_guard_def or_changed_def
  fq_name_def fq_name_opt_def fq_list_names_def to_add_profiles_def to_del_profiles_def Let_def

lemmas mock_defs =
  mock_api_def mock_get_def mock_set_def mock_status_def mock_create_def mock_delete_def
  rival_acts_def not_found_def already_exists_def
  empty_world_def one_world_def rival_world_def vs1_def vs1_update_def vs1_full_def
  web_server_def no_server_def



text \<open>The guard of line 303 holds of no port, and \<open>vs_create\<close> raises nothing.\<close>

lemma port_guard_False: "port_guard port = False"
  by (cases port) (simp_all add: port_guard_def)

lemma vs_create_returns: "fst (vs_create api name destination port pool w) = Inr ()"
  by (simp add: vs_create_def invoke_def split: prod.splits sum.splits)

lemma invoke_calls: "calls (snd (invoke c f w)) = calls w @ [c]"
  by (simp add: invoke_def split: prod.splits)

lemma vs_exists_calls: "calls (snd (vs_exists api vs w)) = calls w @ [Get_object_status vs]"
  by (simp add: vs_exists_def invoke_def split: prod.splits sum.splits exn.splits)

subsection \<open>The reference appliance\<close>






























section \<open>The claims\<close>

subsection \<open>Port validation\<close>

text \<open>
  C1: every port below 1 or above 65535 is rejected before any remote call. The guard
  rejects nothing: with port 65536, on an appliance without the server, the invocation runs
  the existence check, creates the server with port 65536 and exits with changed = true;
  the guard is false of port 0 as well.
\<close>

theorem port_65536_passes_the_guard:
  "port_guard (Some 65536) = False \<and> port_guard (Some 0) = False
   \<and> fst (main mock_api (vs1\<lparr>param_port := Some 65536\<rparr>) empty_world)
       = Exit_json \<lparr>changed = True, deleted = None\<rparr>
   \<and> calls (snd (main mock_api (vs1\<lparr>param_port := Some 65536\<rparr>) empty_world))
       = [Get_object_status ''/Common/vs1'',
          Create ''/Common/vs1'' (Some ''10.0.0.1'') (Some 65536) None,
          Get_source_address_translation_type ''/Common/vs1'',
          Get_description ''/Common/vs1'']"
  by (simp add: module_defs mock_defs)

subsection \<open>The create race\<close>

text \<open>
  C2: when the existence check reports the server absent and the create call then fails
  with "already exists", the controller goes into the update path. Here a rival creates
  the server between the two calls: \<open>vs_create\<close> swallows the exception and prints it,
  the invocation reports changed = true and runs the reconcilers of the create path; no
  transaction is opened, destination and pool are not reconciled.
\<close>

theorem create_race_reports_created:
  "fst (main mock_api vs1 (rival_world (Rival_creates ''/Common/vs1'' web_server) empty_world))
     = Exit_json \<lparr>changed = True, deleted = None\<rparr>
   \<and> calls (snd (main mock_api vs1 (rival_world (Rival_creates ''/Common/vs1'' web_server) empty_world)))
     = [Get_object_status ''/Common/vs1'',
        Create ''/Common/vs1'' (Some ''10.0.0.1'') (Some 443) None,
        Get_source_address_translation_type ''/Common/vs1'',
        Get_description ''/Common/vs1'']
   \<and> printed (snd (main mock_api vs1 (rival_world (Rival_creates ''/Common/vs1'' web_server) empty_world)))
     = [already_exists ''/Common/vs1'']"
  by (simp add: module_defs mock_defs)

subsection \<open>Check mode\<close>

text \<open>
  C3, as stated: a check-mode run reports the changed value of a live run on the same
  remote state. With state absent and no such server, check mode reports changed = true
  and the live run changed = false.
\<close>

theorem check_mode_absent_differs_from_live:
  "fst (main mock_api (vs1\<lparr>param_state := Absent, check_mode := True\<rparr>) empty_world)
     = Exit_json \<lparr>changed = True, deleted = None\<rparr>
   \<and> fst (main mock_api (vs1\<lparr>param_state := Absent, check_mode := False\<rparr>) empty_world)
     = Exit_json \<lparr>changed = False, deleted = None\<rparr>"
  by (simp add: module_defs mock_defs)

text \<open>
  C3, amended: for every desired state and every remote client, a check-mode run issues
  no mutating remote call: it makes no remote call at all, but for the existence check
  when the state is present. Whenever it exits normally it reports changed = true.
\<close>

theorem check_mode_reads_only_and_reports_changed:
  assumes "check_mode m"
  shows "calls (snd (main api m w)) =
           calls w @ (if param_state m = Present
                      then [Get_object_status (fq_name (param_partition m) (param_name m))]
                      else [])
     \<and> (\<exists>cs. calls (snd (main api m w)) = calls w @ cs \<and> (\<forall>c \<in> set cs. \<not> mutating c))
     \<and> (\<forall>res. fst (main api m w) = Exit_json res \<longrightarrow> changed res)"
proof (cases "param_state m")
  case Present
  let ?name = "fq_name (param_partition m) (param_name m)"
  obtain r w' where vs: "vs_exists api ?name w = (r, w')"
    by (cases "vs_exists api ?name w")
  have c: "calls w' = calls w @ [Get_object_status ?name]"
    using vs_exists_calls[of api ?name w] vs by simp
  show ?thesis using assms Present vs c
    by (cases r)
       (auto simp: main_def main_present_def main_update_def then_do_def ret_def Let_def
                   port_guard_False)
qed (use assms in \<open>auto simp: main_def main_absent_def main_toggle_def then_do_def ret_def
                               Let_def port_guard_False\<close>)

text \<open>C3, an instance: state present in check mode on an existing server.\<close>

theorem check_mode_reads_only_and_reports_changed_witness:
  "check_mode (vs1\<lparr>check_mode := True\<rparr>)
   \<and> calls (snd (main mock_api (vs1\<lparr>check_mode := True\<rparr>) one_world))
       = [Get_object_status ''/Common/vs1'']
   \<and> fst (main mock_api (vs1\<lparr>check_mode := True\<rparr>) one_world)
       = Exit_json \<lparr>changed = True, deleted = None\<rparr>"
  using check_mode_reads_only_and_reports_changed[of "vs1\<lparr>check_mode := True\<rparr>" mock_api one_world]
  by (simp add: module_defs mock_defs)

subsection \<open>Profiles\<close>



subsection \<open>Validation before creating\<close>

text \<open>
  C5, as stated: with state present and no such server, a missing destination or port
  fails before any remote call is made. The failure comes after a remote call, the
  existence check.
\<close>

theorem missing_destination_fails_after_a_remote_call:
  "fst (main mock_api (vs1\<lparr>param_destination := None\<rparr>) empty_world)
     = Fail_json ''both destination and port must be supplied to create a VS''
   \<and> calls (snd (main mock_api (vs1\<lparr>param_destination := None\<rparr>) empty_world))
     = [Get_object_status ''/Common/vs1'']
   \<and> calls (snd (main mock_api (vs1\<lparr>param_destination := None\<rparr>) empty_world)) \<noteq> []"
  by (simp add: module_defs mock_defs)

text \<open>
  C5, amended: with state present, when the existence check reports the server absent, a
  missing destination or a missing port makes the invocation fail with the validation
  message; the existence check is the only remote call made, in check mode and live.
\<close>

theorem missing_destination_or_port_fails_after_existence_check:
  assumes st: "param_state m = Present"
    and nf: "api_get_object_status api (fq_name (param_partition m) (param_name m)) (remote w)
               = (Inl (OperationFailed msg), r1)"
    and msg: "py_in ''was not found'' msg"
    and miss: "param_destination m = None \<or> param_port m = None"
  shows "fst (main api m w) = Fail_json ''both destination and port must be supplied to create a VS''
     \<and> calls (snd (main api m w)) = calls w @ [Get_object_status (fq_name (param_partition m) (param_name m))]
     \<and> remote (snd (main api m w)) = r1"
  using assms
  by (auto simp: main_def main_present_def vs_exists_def invoke_def then_do_def ret_def Let_def
                 port_guard_False)

text \<open>C5, an instance: no port, in check mode, on an appliance without the server.\<close>

theorem missing_destination_or_port_fails_after_existence_check_witness:
  "fst (main mock_api (vs1\<lparr>param_port := None, check_mode := True\<rparr>) empty_world)
     = Fail_json ''both destination and port must be supplied to create a VS''
   \<and> calls (snd (main mock_api (vs1\<lparr>param_port := None, check_mode := True\<rparr>) empty_world))
     = [Get_object_status ''/Common/vs1'']"
proof -
  let ?m = "vs1\<lparr>param_port := None, check_mode := True\<rparr>"
  have h1: "param_state ?m = Present" by (simp add: vs1_def)
  have h2: "api_get_object_status mock_api (fq_name (param_partition ?m) (param_name ?m))
              (remote empty_world)
            = (Inl (OperationFailed ''The requested virtual server (/Common/vs1) was not found.''),
               remote empty_world)"
    by (simp add: mock_defs fq_name_def)
  have h3: "py_in ''was not found'' ''The requested virtual server (/Common/vs1) was not found.''"
    by simp
  have h4: "param_destination ?m = None \<or> param_port ?m = None" by simp
  from missing_destination_or_port_fails_after_existence_check[OF h1 h2 h3 h4]
  show ?thesis by (simp add: vs1_def fq_name_def empty_world_def)
qed

subsection \<open>The delete race\<close>

text \<open>
  C6: with state absent, live, when the existence check returned true and the delete call
  fails, the invocation exits with changed = false if the failure is an operation failure
  saying "was not found", and fails with the exception otherwise.
\<close>

theorem delete_race_is_no_change:
  assumes st: "param_state m = Absent" and live: "\<not> check_mode m"
    and ex: "api_get_object_status api (fq_name (param_partition m) (param_name m)) (remote w)
               = (Inr (), r1)"
    and del: "api_delete_virtual_server api (fq_name (param_partition m) (param_name m)) r1
               = (Inl e, r2)"
  shows "fst (main api m w) =
           (case e of
              OperationFailed msg \<Rightarrow>
                if py_in ''was not found'' msg then Exit_json \<lparr>changed = False, deleted = None\<rparr>
                else Fail_json (''received exception: '' @ msg)
            | OtherException msg \<Rightarrow> Fail_json (''received exception: '' @ msg))"
  using assms
  by (cases e)
     (auto simp: main_def main_absent_def vs_exists_def vs_remove_def invoke_def then_do_def
                 ret_def Let_def port_guard_False)

text \<open>C6, an instance: a rival deletes the server right after the existence check.\<close>

theorem delete_race_is_no_change_witness:
  "fst (main mock_api (vs1\<lparr>param_state := Absent\<rparr>)
          (rival_world (Rival_deletes ''/Common/vs1'') one_world))
     = Exit_json \<lparr>changed = False, deleted = None\<rparr>"
proof -
  let ?m = "vs1\<lparr>param_state := Absent\<rparr>"
  let ?w = "rival_world (Rival_deletes ''/Common/vs1'') one_world"
  let ?gone = "\<lparr>servers = (no_server(''/Common/vs1'' := Some web_server))(''/Common/vs1'' := None),
                rival = None, folder = ''Common''\<rparr>"
  have h1: "param_state ?m = Absent" and h2: "\<not> check_mode ?m" by (simp_all add: vs1_def)
  have h3: "api_get_object_status mock_api (fq_name (param_partition ?m) (param_name ?m)) (remote ?w)
              = (Inr (), ?gone)"
    by (simp add: mock_defs fq_name_def)
  have h4: "api_delete_virtual_server mock_api (fq_name (param_partition ?m) (param_name ?m)) ?gone
              = (Inl (not_found ''/Common/vs1''), ?gone)"
    by (simp add: mock_api_def mock_delete_def vs1_def fq_name_def)
  from delete_race_is_no_change[OF h1 h2 h3 h4] show ?thesis
    by (simp add: not_found_def)
qed

subsection \<open>Running twice\<close>




subsection \<open>Destination and port\<close>



subsection \<open>Pool and description\<close>

text \<open>
  C9, as stated: no invocation can clear the description of an existing server. An
  invocation whose description is the empty string replaces the text of the server by the
  empty string.
\<close>

theorem empty_description_clears_the_text:
  "map_option vs_description (servers (remote one_world) ''/Common/vs1'') = Some ''old text''
   \<and> fst (main mock_api (vs1\<lparr>param_description := Some []\<rparr>) one_world)
       = Exit_json \<lparr>changed = True, deleted = None\<rparr>
   \<and> Set_description ''/Common/vs1'' []
       \<in> set (calls (snd (main mock_api (vs1\<lparr>param_description := Some []\<rparr>) one_world)))
   \<and> map_option vs_description
       (servers (remote (snd (main mock_api (vs1\<lparr>param_description := Some []\<rparr>) one_world)))
          ''/Common/vs1'') = Some []"
  by (simp add: module_defs mock_defs)

text \<open>
  C9, amended: the only mutating call of \<open>set_pool\<close> and of \<open>set_description\<close> is
  their own setter, issued only for a desired value that is not \<open>None\<close> and carrying that
  value; with pool or description unset the remote client sees the getter call and
  nothing else.
\<close>

theorem unset_pool_and_description_issue_no_setter:
  "(\<exists>cs. calls (snd (set_pool api name pool w)) = calls w @ cs \<and>
          (\<forall>c \<in> set cs. mutating c \<longrightarrow> (\<exists>p. pool = Some p \<and> c = Set_default_pool_name name p)))
   \<and> (\<exists>cs. calls (snd (set_description api name description w)) = calls w @ cs \<and>
          (\<forall>c \<in> set cs. mutating c \<longrightarrow> (\<exists>d. description = Some d \<and> c = Set_description name d)))
   \<and> calls (snd (set_pool api name None w)) = calls w @ [Get_default_pool_name name]
   \<and> calls (snd (set_description api name None w)) = calls w @ [Get_description name]
   \<and> remote (snd (set_pool api name None w)) = snd (api_get_default_pool_name api name (remote w))
   \<and> remote (snd (set_description api name None w)) = snd (api_get_description api name (remote w))"
proof -
  have a: "\<exists>cs. calls (snd (set_pool api name pool w)) = calls w @ cs \<and>
          (\<forall>c \<in> set cs. mutating c \<longrightarrow> (\<exists>p. pool = Some p \<and> c = Set_default_pool_name name p))"
    by (auto simp: set_pool_def get_pool_def invoke_def then_do_def ret_def
             split: prod.splits sum.splits option.splits)
  have b: "\<exists>cs. calls (snd (set_description api name description w)) = calls w @ cs \<and>
          (\<forall>c \<in> set cs. mutating c \<longrightarrow> (\<exists>d. description = Some d \<and> c = Set_description name d))"
    by (auto simp: set_description_def get_description_def invoke_def then_do_def ret_def
             split: prod.splits sum.splits option.splits)
  have c: "calls (snd (set_pool api name None w)) = calls w @ [Get_default_pool_name name]"
    "remote (snd (set_pool api name None w)) = snd (api_get_default_pool_name api name (remote w))"
    by (auto simp: set_pool_def get_pool_def invoke_def then_do_def ret_def
             split: prod.splits sum.splits option.splits)
  have d: "calls (snd (set_description api name None w)) = calls w @ [Get_description name]"
    "remote (snd (set_description api name None w)) = snd (api_get_description api name (remote w))"
    by (auto simp: set_description_def get_description_def invoke_def then_do_def ret_def
             split: prod.splits sum.splits option.splits)
  from a b c d show ?thesis by blast
qed

text \<open>C9, an instance: pool and description unset on an existing server.\<close>

theorem unset_pool_and_description_issue_no_setter_witness:
  "calls (snd (set_pool mock_api ''/Common/vs1'' None one_world)) = [Get_default_pool_name ''/Common/vs1'']
   \<and> calls (snd (set_description mock_api ''/Common/vs1'' None one_world)) = [Get_description ''/Common/vs1'']
   \<and> remote (snd (set_pool mock_api ''/Common/vs1'' None one_world)) = remote one_world
   \<and> remote (snd (set_description mock_api ''/Common/vs1'' None one_world)) = remote one_world"
  using unset_pool_and_description_issue_no_setter[of mock_api "''/Common/vs1''" None one_world None]
  by (simp add: mock_defs)

subsection \<open>Unrecognised SNAT modes\<close>

text \<open>
  C10: for every SNAT string other than \<open>None\<close> and \<open>Automap\<close>, \<open>set_snat\<close> reads the
  current mode and does nothing else: it issues no setter, raises nothing of its own (an
  exception can only be that of the getter), returns false, and behaves as with the mode
  unset.
\<close>

theorem unknown_snat_is_ignored:
  assumes "s \<noteq> ''None''" and "s \<noteq> ''Automap''"
  shows "calls (snd (set_snat api name (Some s) w)) = calls w @ [Get_source_address_translation_type name]
     \<and> fst (set_snat api name (Some s) w) =
         (case fst (api_get_source_address_translation_type api name (remote w)) of
            Inl e \<Rightarrow> Inl e | Inr current_state \<Rightarrow> Inr False)
     \<and> remote (snd (set_snat api name (Some s) w)) =
         snd (api_get_source_address_translation_type api name (remote w))
     \<and> set_snat api name (Some s) w = set_snat api name None w"
  using assms
  by (auto simp: set_snat_def get_snat_type_def invoke_def then_do_def ret_def
           split: prod.splits sum.splits)

text \<open>C10, an instance: the mode \<open>automap\<close>, in lower case.\<close>

theorem unknown_snat_is_ignored_witness:
  "fst (set_snat mock_api ''/Common/vs1'' (Some ''automap'') one_world) = Inr False
   \<and> calls (snd (set_snat mock_api ''/Common/vs1'' (Some ''automap'') one_world))
       = [Get_source_address_translation_type ''/Common/vs1'']"
proof -
  have h1: "''automap'' \<noteq> ''None''" and h2: "''automap'' \<noteq> ''Automap''" by simp_all
  have g: "fst (api_get_source_address_translation_type mock_api ''/Common/vs1'' (remote one_world))
             = Inr ''SRC_TRANS_NONE''"
    by (simp add: mock_defs)
  have c: "calls one_world = []" by (simp add: one_world_def)
  from unknown_snat_is_ignored[OF h1 h2, of mock_api "''/Common/vs1''" one_world]
  have "calls (snd (set_snat mock_api ''/Common/vs1'' (Some ''automap'') one_world))
          = calls one_world @ [Get_source_address_translation_type ''/Common/vs1'']"
    and "fst (set_snat mock_api ''/Common/vs1'' (Some ''automap'') one_world) =
           (case fst (api_get_source_address_translation_type mock_api ''/Common/vs1'' (remote one_world)) of
              Inl e \<Rightarrow> Inl e | Inr current_state \<Rightarrow> Inr False)"
    by blast+
  with g c show ?thesis by simp
qed

end
